theory Spec2Isabelle
  imports Complex_Main
begin

section \<open>Model values: \<open>providerId:modelName\<close> (main.ts)\<close>

text \<open>
  JavaScript strings are modelled as \<open>string\<close>. The three string methods the helpers
  use are written out with the behaviour of the language: \<open>indexOf\<close> answers \<open>-1\<close> when
  the character does not occur, \<open>substring\<close> clamps both indices to the length of the
  string and swaps them when the first is the larger one.
\<close>

fun indexOf_from :: "string \<Rightarrow> char \<Rightarrow> nat \<Rightarrow> int" where
  "indexOf_from [] c i = - 1"
| "indexOf_from (x # xs) c i = (if x = c then int i else indexOf_from xs c (Suc i))"

definition indexOf :: "string \<Rightarrow> char \<Rightarrow> int" where
  "indexOf s c = indexOf_from s c 0"

definition includes_char :: "string \<Rightarrow> char \<Rightarrow> bool" where
  "includes_char s c = (c \<in> set s)"

definition clamp_index :: "string \<Rightarrow> int \<Rightarrow> nat" where
  "clamp_index s i = (if i < 0 then 0 else min (nat i) (length s))"

definition substring :: "string \<Rightarrow> int \<Rightarrow> int \<Rightarrow> string" where
  "substring s a b =
     (let a' = clamp_index s a; b' = clamp_index s b;
          lo = min a' b'; hi = max a' b'
      in take (hi - lo) (drop lo s))"

definition substring_from :: "string \<Rightarrow> int \<Rightarrow> string" where
  "substring_from s a = substring s a (int (length s))"

text \<open>\<open>x || 'openai'\<close> on an optional string: undefined and the empty string are falsy.\<close>

definition or_default :: "string option \<Rightarrow> string \<Rightarrow> string" where
  "or_default x d = (case x of None \<Rightarrow> d | Some s \<Rightarrow> if s = [] then d else s)"

definition formatModelValue :: "string \<Rightarrow> string \<Rightarrow> string" where
  "formatModelValue providerId modelName = providerId @ '':'' @ modelName"

record model_value =
  mv_providerId :: string
  mv_modelName :: string

definition parseModelValue :: "string \<Rightarrow> model_value" where
  "parseModelValue v =
     (let colonIndex = indexOf v CHR '':'' in
      if colonIndex = - 1 then \<lparr>mv_providerId = ''openai'', mv_modelName = v\<rparr>
      else \<lparr>mv_providerId = substring v 0 colonIndex,
            mv_modelName = substring_from v (colonIndex + 1)\<rparr>)"

text \<open>
  \<open>CustomEmbeddingModel\<close> has the fields \<open>name\<close> and \<open>displayName\<close>; \<open>EmbeddingModel\<close>
  (and \<open>ChatModel\<close>, which has the same fields) adds \<open>provider\<close>, \<open>available\<close> and the
  optional \<open>providerId\<close>. \<open>migrateModelValue\<close> reads \<open>name\<close> and \<open>providerId\<close> only, so it
  is defined on every extension of the record.
\<close>

record custom_embedding_model =
  name :: string
  displayName :: string

record embedding_model = custom_embedding_model +
  provider :: string
  available :: bool
  providerId :: "string option"

definition migrateModelValue ::
  "string \<Rightarrow> ('a embedding_model_scheme) list \<Rightarrow> string option \<Rightarrow> string" where
  "migrateModelValue oldValue availableModels currentProviderId =
     (if includes_char oldValue CHR '':'' then oldValue
      else
        let matchingModels = filter (\<lambda>m. name m = oldValue) availableModels in
        case matchingModels of
          [] \<Rightarrow> formatModelValue ''openai'' oldValue
        | [m] \<Rightarrow> formatModelValue (or_default (providerId m) ''openai'') oldValue
        | m0 # _ # _ \<Rightarrow>
            (case (if currentProviderId = None \<or> currentProviderId = Some []
                   then None
                   else List.find (\<lambda>m. providerId m = currentProviderId) matchingModels) of
               Some preferredMatch \<Rightarrow>
                 formatModelValue (or_default (providerId preferredMatch) ''openai'') oldValue
             | None \<Rightarrow> formatModelValue (or_default (providerId m0) ''openai'') oldValue))"

section \<open>The embedding client (src/llm_client.ts)\<close>

text \<open>
  Every \<open>throw\<close> of the source, and every rejection of a call it awaits, is a value of
  \<open>error\<close>; a function that can throw returns \<open>error + 'a\<close> with \<open>Inl\<close> the error.
\<close>

datatype error =
    NoTextProvided
  | OpenAIClientNotInitialized
  | UnknownEmbeddingModel string
  | RangeError
  | AnthropicNotSupported
  | RemoteError string
  | HostError string
  | NoEmbeddingReturned
  | DimensionMismatch

definition OPENAI_PROVIDER :: string where
  "OPENAI_PROVIDER = ''openai''"

definition OPENAI_EMBEDDING_3_SMALL :: string where
  "OPENAI_EMBEDDING_3_SMALL = ''text-embedding-3-small''"

definition OPENAI_EMBEDDING_3_LARGE :: string where
  "OPENAI_EMBEDDING_3_LARGE = ''text-embedding-3-large''"

definition unlabelledEmbeddingModel :: string where
  "unlabelledEmbeddingModel = OPENAI_EMBEDDING_3_SMALL"

definition quantizationDecimals :: int where
  "quantizationDecimals = 3"

text \<open>
  \<open>providerModels\<close> is a \<open>Record\<close> keyed by provider id; the model is the list of its
  entries in the order \<open>Object.values\<close> enumerates them. The \<open>embedding\<close> list of an entry
  may be missing (\<open>if (models.embedding)\<close>), and so may both optional arguments.
\<close>

definition availableEmbeddingModels ::
  "string \<Rightarrow> custom_embedding_model list option \<Rightarrow>
   (string \<times> embedding_model list option) list option \<Rightarrow> embedding_model list" where
  "availableEmbeddingModels openAIKey customModels providerModels =
     (let builtInModels =
            [\<lparr>name = OPENAI_EMBEDDING_3_SMALL,
              displayName = ''OpenAI: text-embedding-3-small'',
              provider = OPENAI_PROVIDER, available = (openAIKey \<noteq> []),
              providerId = Some ''openai''\<rparr>,
             \<lparr>name = OPENAI_EMBEDDING_3_LARGE,
              displayName = ''OpenAI: text-embedding-3-large'',
              provider = OPENAI_PROVIDER, available = (openAIKey \<noteq> []),
              providerId = Some ''openai''\<rparr>];
          customEmbeddingModels =
            map (\<lambda>m. \<lparr>name = name m,
                       displayName = (if displayName m = [] then name m else displayName m),
                       provider = OPENAI_PROVIDER, available = True,
                       providerId = Some ''openai''\<rparr>)
              (filter (\<lambda>m. name m \<noteq> [])
                 (case customModels of None \<Rightarrow> [] | Some ms \<Rightarrow> ms));
          discoveredModels =
            (case providerModels of
               None \<Rightarrow> []
             | Some pms \<Rightarrow>
                 concat (map (\<lambda>(_, embedding). case embedding of None \<Rightarrow> [] | Some ms \<Rightarrow> ms) pms))
      in builtInModels @ customEmbeddingModels @ discoveredModels)"

text \<open>
  The fields of the configuration as they are read at run time: a field reads as
  \<open>undefined\<close> (\<open>None\<close>) when the object has no such key or holds \<open>undefined\<close> under it.
\<close>

record openai_client_config =
  embeddings_model :: "string option"
  quantization_decimals :: "int option"
  baseURL :: "string option"

text \<open>
  \<open>Partial<OpenAIClientConfig>\<close>: a key is absent from the object, present with the value
  \<open>undefined\<close>, or present with a value. The spread \<open>{ ...defaultOpenAIConfig, ...config }\<close>
  copies every key that is present, an \<open>undefined\<close> one too, over the default.
\<close>

datatype 'a given = Absent | Undefined | Given 'a

record partial_client_config =
  given_embeddings_model :: "string given"
  given_quantization_decimals :: "int given"
  given_baseURL :: "string given"

definition defaultOpenAIConfig :: openai_client_config where
  "defaultOpenAIConfig =
     \<lparr>embeddings_model = Some OPENAI_EMBEDDING_3_SMALL,
      quantization_decimals = Some quantizationDecimals,
      baseURL = None\<rparr>"

text \<open>The options handed to the SDK's \<open>new OpenAI(...)\<close>: they identify the remote service.\<close>

record openai_options =
  apiKey :: string
  dangerouslyAllowBrowser :: bool
  options_baseURL :: "string option"

record openai_client =
  openai :: openai_options
  config :: openai_client_config

definition spread_key :: "'a option \<Rightarrow> 'a given \<Rightarrow> 'a option" where
  "spread_key d g = (case g of Absent \<Rightarrow> d | Undefined \<Rightarrow> None | Given x \<Rightarrow> Some x)"

definition spread_config ::
  "openai_client_config \<Rightarrow> partial_client_config option \<Rightarrow> openai_client_config" where
  "spread_config d given_config =
     (case given_config of
        None \<Rightarrow> d
      | Some g \<Rightarrow>
          \<lparr>embeddings_model = spread_key (embeddings_model d) (given_embeddings_model g),
           quantization_decimals =
             spread_key (quantization_decimals d) (given_quantization_decimals g),
           baseURL = spread_key (baseURL d) (given_baseURL g)\<rparr>)"

text \<open>The constructor of \<open>OpenAIClient\<close>; the configuration argument is optional.\<close>

definition new_OpenAIClient :: "string \<Rightarrow> partial_client_config option \<Rightarrow> openai_client" where
  "new_OpenAIClient key given_config =
     (let cfg = spread_config defaultOpenAIConfig given_config;
          openaiOptions =
            \<lparr>apiKey = key, dangerouslyAllowBrowser = True,
             options_baseURL =
               (case baseURL cfg of None \<Rightarrow> None | Some b \<Rightarrow> if b = [] then None else Some b)\<rparr>
      in \<lparr>openai = openaiOptions, config = cfg\<rparr>)"

record embeddings_request =
  request_model :: "string option"
  request_input :: "string list"
  request_dimensions :: "nat option"

text \<open>
  Numbers are left abstract (type \<open>'n\<close>). \<open>Number(value.toFixed(d))\<close> is the parameter
  \<open>rnd d value\<close> for a digit count within 0..100; outside that range \<open>toFixed\<close> throws a
  RangeError, and \<open>toFixed(undefined)\<close> uses 0 digits. The remote service is the parameter
  \<open>create\<close>: from the SDK options and the request to the \<open>embedding\<close> arrays of \<open>data\<close>, or
  to a rejection. A call returns the remote requests it issued, in order, next to its
  result.
\<close>

definition fraction_digits :: "int option \<Rightarrow> int" where
  "fraction_digits d = (case d of None \<Rightarrow> 0 | Some k \<Rightarrow> k)"

definition toFixedNumber :: "(nat \<Rightarrow> 'n \<Rightarrow> 'n) \<Rightarrow> int option \<Rightarrow> 'n \<Rightarrow> error + 'n" where
  "toFixedNumber rnd d v =
     (if fraction_digits d < 0 \<or> 100 < fraction_digits d then Inl RangeError
      else Inr (rnd (nat (fraction_digits d)) v))"

fun map_result :: "('a \<Rightarrow> error + 'b) \<Rightarrow> 'a list \<Rightarrow> error + 'b list" where
  "map_result f [] = Inr []"
| "map_result f (x # xs) =
     (case f x of
        Inl e \<Rightarrow> Inl e
      | Inr y \<Rightarrow> (case map_result f xs of Inl e \<Rightarrow> Inl e | Inr ys \<Rightarrow> Inr (y # ys)))"

definition first_entry :: "'a list \<Rightarrow> 'a option" where
  "first_entry xs = (case xs of [] \<Rightarrow> None | x # _ \<Rightarrow> Some x)"

type_synonym remote_call = "openai_options \<times> embeddings_request"

definition embeddings_request_of :: "openai_client \<Rightarrow> string list \<Rightarrow> embeddings_request" where
  "embeddings_request_of this docs =
     (let model = embeddings_model (config this);
          dimensions = (if model = Some OPENAI_EMBEDDING_3_SMALL then Some 256 else None)
      in \<lparr>request_model = model, request_input = docs, request_dimensions = dimensions\<rparr>)"

definition generateOpenAiEmbeddings ::
  "(nat \<Rightarrow> 'n \<Rightarrow> 'n) \<Rightarrow> (openai_options \<Rightarrow> embeddings_request \<Rightarrow> error + 'n list list) \<Rightarrow>
   openai_client \<Rightarrow> string list \<Rightarrow> remote_call list \<times> (error + 'n list option)" where
  "generateOpenAiEmbeddings rnd create this docs =
     (let request = embeddings_request_of this docs in
      ([(openai this, request)],
       case create (openai this) request of
         Inl e \<Rightarrow> Inl e
       | Inr data \<Rightarrow>
           (case map_result
                   (map_result (toFixedNumber rnd (quantization_decimals (config this)))) data of
              Inl e \<Rightarrow> Inl e
            | Inr quantized \<Rightarrow> Inr (first_entry quantized))))"

text \<open>\<open>text\<close> is \<open>None\<close> when the argument is missing; \<open>!text\<close> also holds of the empty string.\<close>

definition generateEmbeddings ::
  "(nat \<Rightarrow> 'n \<Rightarrow> 'n) \<Rightarrow> (openai_options \<Rightarrow> embeddings_request \<Rightarrow> error + 'n list list) \<Rightarrow>
   string option \<Rightarrow> string \<Rightarrow> openai_client option \<Rightarrow>
   remote_call list \<times> (error + 'n list option)" where
  "generateEmbeddings rnd create text modelName openaiClient =
     (case text of
        None \<Rightarrow> ([], Inl NoTextProvided)
      | Some txt \<Rightarrow>
          if txt = [] then ([], Inl NoTextProvided)
          else if modelName = OPENAI_EMBEDDING_3_SMALL \<or> modelName = OPENAI_EMBEDDING_3_LARGE then
            (case openaiClient of
               None \<Rightarrow> ([], Inl OpenAIClientNotInitialized)
             | Some client \<Rightarrow> generateOpenAiEmbeddings rnd create client [txt])
          else ([], Inl (UnknownEmbeddingModel modelName)))"

text \<open>
  The decimal that \<open>toFixed\<close> writes, on exact values: the multiple of \<open>10\<^sup>-\<^sup>d\<close> nearest to
  the value, the one further from zero when two are equally near. It instantiates
  \<open>rnd\<close> where the model is run on sample data.
\<close>

definition round_decimals :: "nat \<Rightarrow> rat \<Rightarrow> rat" where
  "round_decimals d x =
     (if x < 0 then - (of_int \<lfloor>- x * 10 ^ d + 1 / 2\<rfloor> / 10 ^ d)
      else of_int \<lfloor>x * 10 ^ d + 1 / 2\<rfloor> / 10 ^ d)"

text \<open>A remote service for sample runs: it answers one known text and rejects the rest.\<close>

definition sample_remote :: "openai_options \<Rightarrow> embeddings_request \<Rightarrow> error + rat list list" where
  "sample_remote =
     (\<lambda>opts req.
        if request_input req = [''hello'']
        then Inr [[1234567 / 10000000, - 5 / 10000, 2 / 3]]
        else Inl (RemoteError ''unavailable''))"

section \<open>The indexing task\<close>







section \<open>The plugin (main.ts)\<close>

text \<open>
  The plugin object is a record that every method takes and returns. What a method does
  to the outside (events triggered, settings handed to the host's \<open>saveData\<close>, console
  output, notices, embedding work submitted) is appended to the field \<open>effects\<close>, in the
  order of the source. The fields of the settings that only the chat side reads are left
  out. \<open>StoredVector\<close>, \<open>NoteGroup\<close> and \<open>VectorStore\<close> are declared in files that are not
  among the sources; they are the type parameters \<open>'sv\<close>, \<open>'ng\<close> and \<open>'vs\<close>. A file is its
  path.

  A call that the source awaits ends in one of three ways: the promise resolves, it
  rejects with an error, or it never settles; then the caller never gets past its
  \<open>await\<close>. An \<open>async\<close> method of the plugin returns how its own promise ends, next to the
  plugin as it leaves it.
\<close>

datatype 'a awaited = Resolved 'a | Rejected error | Pending

datatype indexing_status = IDLE_STATUS | INDEXING_STATUS

record custom_provider =
  provider_id :: string
  provider_name :: string
  provider_apiKey :: string
  provider_baseUrl :: string
  provider_enabled :: bool

record ('sv, 'ng) settings =
  openaiAPIKey :: string
  openaiBaseUrl :: string
  anthropicAPIKey :: string
  gcpAPIKey :: string
  vectors :: "'sv list"
  noteGroups :: "'ng list"
  embeddingsModelVersion :: "string option"
  embeddingsModelProviderId :: "string option"
  embeddingsEnabled :: bool
  indexedNoteGroup :: int
  customEmbeddingModels :: "custom_embedding_model list"
  customProviders :: "custom_provider list"
  providerModels :: "(string \<times> embedding_model list option) list"

datatype ('sv, 'ng) effect =
    Trigger string
  | SaveData "('sv, 'ng) settings"
  | ConsoleLog string
  | ConsoleWarn string
  | ConsoleError error
  | Notice nat
  | SubmitEmbeddings "string list" openai_client

record ('sv, 'ng, 'vs) plugin =
  settings :: "('sv, 'ng) settings"
  vectorStore :: 'vs
  openaiClient :: "openai_client option"
  anthropicClient :: "string option"
  indexingStatus :: indexing_status
  lastIndexedCount :: nat
  clientCache :: "(string \<times> openai_client) list"
  effects :: "('sv, 'ng) effect list"

text \<open>
  The collaborators are parameters, gathered in one record: the host's \<open>saveData\<close>, and
  those whose code is not among the sources, namely the constructor of \<open>VectorStore\<close>,
  \<open>filesInGroupFolder\<close>, and the embedding run (\<open>generateAndStoreEmbeddings\<close> followed by
  \<open>concurrencyManager.done()\<close>, both awaited). A run is given by what it does to the
  plugin: the counts it passes to \<open>notify\<close>, in order, the vector collection and the store
  it leaves, and how the awaited calls end.
\<close>

record ('sv, 'vs) embedding_run =
  notified :: "nat list"
  vectors_after :: "'sv list"
  store_after :: 'vs
  ending :: "unit awaited"

record ('sv, 'ng, 'vs) host =
  saveData :: "('sv, 'ng) settings \<Rightarrow> unit awaited"
  new_VectorStore :: "('sv, 'ng, 'vs) plugin \<Rightarrow> 'vs"
  filesInGroupFolder :: "'ng option \<Rightarrow> error + string list"
  generateAndStoreEmbeddings ::
    "string list \<Rightarrow> openai_client \<Rightarrow> ('sv, 'ng, 'vs) plugin \<Rightarrow> ('sv, 'vs) embedding_run"

definition index_updated :: string where
  "index_updated = ''zettelkasten-llm-tools:index-updated''"

definition log_effect :: "('sv, 'ng) effect \<Rightarrow> ('sv, 'ng, 'vs) plugin \<Rightarrow> ('sv, 'ng, 'vs) plugin" where
  "log_effect e this = this\<lparr>effects := effects this @ [e]\<rparr>"

definition trigger :: "string \<Rightarrow> ('sv, 'ng, 'vs) plugin \<Rightarrow> ('sv, 'ng, 'vs) plugin" where
  "trigger event this = log_effect (Trigger event) this"

text \<open>
  \<open>getOpenAIClient\<close>: the client of a provider, built on first use and cached. A provider
  id that is missing or empty stands for \<open>openai\<close>; the provider \<open>anthropic\<close> is refused
  with an error. The configuration handed to the constructor has the keys
  \<open>embeddings_model\<close> and \<open>baseURL\<close> (\<open>baseURL || undefined\<close>) and no other.
\<close>

definition getOpenAIClient ::
  "string option \<Rightarrow> ('sv, 'ng, 'vs) plugin \<Rightarrow> (error + openai_client) \<times> ('sv, 'ng, 'vs) plugin" where
  "getOpenAIClient given_providerId this =
     (let ident = or_default given_providerId ''openai'' in
      if ident = ''anthropic'' then (Inl AnthropicNotSupported, this)
      else
        case map_of (clientCache this) ident of
          Some cached \<Rightarrow> (Inr cached, this)
        | None \<Rightarrow>
            let s = settings this;
                (key, url, warning) =
                  (if ident = ''gcp'' then
                     (if gcpAPIKey s = []
                      then (openaiAPIKey s, openaiBaseUrl s,
                            [ConsoleWarn ''GCP provider requested but no API key is configured. Falling back to OpenAI.''])
                      else (gcpAPIKey s,
                            ''https://generativelanguage.googleapis.com/v1beta/openai/'', []))
                   else if ident \<noteq> ''openai'' then
                     (case List.find (\<lambda>p. provider_id p = ident) (customProviders s) of
                        Some customProvider \<Rightarrow>
                          (provider_apiKey customProvider, provider_baseUrl customProvider, [])
                      | None \<Rightarrow>
                          (openaiAPIKey s, openaiBaseUrl s,
                           [ConsoleWarn (''Custom provider '' @ [CHR 0x22] @ ident @ [CHR 0x22] @
                              '' not found. It may have been deleted. Falling back to OpenAI.'')]))
                   else (openaiAPIKey s, openaiBaseUrl s, []));
                version = or_default (embeddingsModelVersion s) unlabelledEmbeddingModel;
                embeddingsModel =
                  (if includes_char version CHR '':'' then mv_modelName (parseModelValue version)
                   else version);
                client =
                  new_OpenAIClient key
                    (Some \<lparr>given_embeddings_model = Given embeddingsModel,
                           given_quantization_decimals = Absent,
                           given_baseURL = (if url = [] then Undefined else Given url)\<rparr>)
            in (Inr client,
                this\<lparr>clientCache := clientCache this @ [(ident, client)],
                     effects := effects this @ warning\<rparr>))"

definition clearVectorArray ::
  "('sv, 'ng, 'vs) host \<Rightarrow> ('sv, 'ng, 'vs) plugin \<Rightarrow> ('sv, 'ng, 'vs) plugin" where
  "clearVectorArray h this =
     (let this1 = this\<lparr>settings := (settings this)\<lparr>vectors := []\<rparr>\<rparr>;
          this2 = this1\<lparr>vectorStore := new_VectorStore h this1\<rparr>
      in this2\<lparr>lastIndexedCount := 0\<rparr>)"

definition saveSettings ::
  "('sv, 'ng, 'vs) host \<Rightarrow> ('sv, 'ng, 'vs) plugin \<Rightarrow> unit awaited \<times> ('sv, 'ng, 'vs) plugin" where
  "saveSettings h this =
     (let this1 = log_effect (ConsoleLog ''saving...'') this;
          this2 = log_effect (SaveData (settings this1)) this1
      in case saveData h (settings this2) of
           Rejected e \<Rightarrow> (Rejected e, this2)
         | Pending \<Rightarrow> (Pending, this2)
         | Resolved _ \<Rightarrow>
             (let this3 = this2\<lparr>clientCache := []\<rparr>
              in case getOpenAIClient None this3 of
                   (Inl e, this4) \<Rightarrow> (Rejected e, this4)
                 | (Inr client, this4) \<Rightarrow>
                     (Resolved (),
                      log_effect (ConsoleLog ''done'')
                        (this4\<lparr>openaiClient := Some client,
                               anthropicClient := Some (anthropicAPIKey (settings this4))\<rparr>))))"

text \<open>An array read: \<open>undefined\<close> outside the array.\<close>

definition array_get :: "'a list \<Rightarrow> int \<Rightarrow> 'a option" where
  "array_get xs i = (if 0 \<le> i \<and> nat i < length xs then Some (xs ! nat i) else None)"

text \<open>The \<open>notify\<close> callback that \<open>indexVectorStores\<close> hands to the embedding run.\<close>

definition notify :: "('sv, 'ng, 'vs) plugin \<Rightarrow> nat \<Rightarrow> ('sv, 'ng, 'vs) plugin" where
  "notify this numCompleted = trigger index_updated (this\<lparr>lastIndexedCount := numCompleted\<rparr>)"

text \<open>The body of the \<open>try\<close> block of \<open>indexVectorStores\<close>, with the way it ends.\<close>

definition index_try_block ::
  "('sv, 'ng, 'vs) host \<Rightarrow> ('sv, 'ng, 'vs) plugin \<Rightarrow> unit awaited \<times> ('sv, 'ng, 'vs) plugin" where
  "index_try_block h this =
     (let noteGroup = array_get (noteGroups (settings this)) (indexedNoteGroup (settings this)) in
      case filesInGroupFolder h noteGroup of
        Inl e \<Rightarrow> (Rejected e, this)
      | Inr filesForNoteGroup \<Rightarrow>
          (case getOpenAIClient (embeddingsModelProviderId (settings this)) this of
             (Inl e, this1) \<Rightarrow> (Rejected e, this1)
           | (Inr client, this1) \<Rightarrow>
               let run = generateAndStoreEmbeddings h filesForNoteGroup client this1;
                   this2 = log_effect (SubmitEmbeddings filesForNoteGroup client) this1;
                   this3 = foldl notify this2 (notified run);
                   this4 = this3\<lparr>settings := (settings this3)\<lparr>vectors := vectors_after run\<rparr>,
                                vectorStore := store_after run\<rparr>
               in (ending run, this4)))"

text \<open>
  \<open>indexVectorStores\<close>. The first \<open>await this.saveSettings()\<close> stands before the \<open>try\<close>, the
  second in the \<open>finally\<close> block: when either does not resolve, neither does the call. An
  error of the \<open>try\<close> block is caught and written to the console; a block that never
  settles leaves the call waiting inside it.
\<close>

definition indexVectorStores ::
  "('sv, 'ng, 'vs) host \<Rightarrow> ('sv, 'ng, 'vs) plugin \<Rightarrow> unit awaited \<times> ('sv, 'ng, 'vs) plugin" where
  "indexVectorStores h this =
     (if \<not> embeddingsEnabled (settings this) \<or> indexingStatus this = INDEXING_STATUS
      then (Resolved (), this)
      else
        let this1 = trigger index_updated
                      (this\<lparr>indexingStatus := INDEXING_STATUS, lastIndexedCount := 0\<rparr>) in
        case saveSettings h this1 of
          (Rejected e, this2) \<Rightarrow> (Rejected e, this2)
        | (Pending, this2) \<Rightarrow> (Pending, this2)
        | (Resolved _, this2) \<Rightarrow>
            (case index_try_block h this2 of
               (Pending, this3) \<Rightarrow> (Pending, this3)
             | (attempt, this3) \<Rightarrow>
                 let this4 = (case attempt of
                                Rejected e \<Rightarrow> log_effect (ConsoleError e) this3
                              | _ \<Rightarrow> this3);
                     this5 = trigger index_updated (this4\<lparr>indexingStatus := IDLE_STATUS\<rparr>)
                 in (case saveSettings h this5 of
                       (Resolved _, this6) \<Rightarrow>
                         (Resolved (), log_effect (Notice (lastIndexedCount this6)) this6)
                     | (unsettled, this6) \<Rightarrow> (unsettled, this6))))"

text \<open>The settings tab: the current model value, and the dropdown's change handler once
  the confirmation dialog has answered.\<close>

definition getCurrentEmbeddingModelValue :: "('sv, 'ng, 'vs) plugin \<Rightarrow> string" where
  "getCurrentEmbeddingModelValue this =
     (let s = settings this in
      case embeddingsModelVersion s of
        None \<Rightarrow> []
      | Some modelVersion \<Rightarrow>
          if modelVersion = [] then []
          else if includes_char modelVersion CHR '':'' then modelVersion
          else migrateModelValue modelVersion
                 (availableEmbeddingModels (openaiAPIKey s) (Some (customEmbeddingModels s))
                    (Some (providerModels s)))
                 (embeddingsModelProviderId s))"

definition embeddingModel_onChange ::
  "('sv, 'ng, 'vs) host \<Rightarrow> string \<Rightarrow> bool \<Rightarrow> ('sv, 'ng, 'vs) plugin \<Rightarrow>
   unit awaited \<times> ('sv, 'ng, 'vs) plugin" where
  "embeddingModel_onChange h v confirmWasClicked this =
     (if \<not> confirmWasClicked then (Resolved (), this)
      else
        let currentValue = getCurrentEmbeddingModelValue this in
        if v \<noteq> [] \<and> v \<noteq> currentValue then
          let parsed = parseModelValue v;
              this1 = this\<lparr>settings := (settings this)
                        \<lparr>embeddingsModelVersion := Some v,
                         embeddingsModelProviderId := Some (mv_providerId parsed)\<rparr>\<rparr>;
              this2 = clearVectorArray h this1
          in case saveSettings h this2 of
               (Resolved _, this3) \<Rightarrow> indexVectorStores h this3
             | (unsettled, this3) \<Rightarrow> (unsettled, this3)
        else (Resolved (), this))"

text \<open>
  The client that \<open>saveSettings\<close> rebuilds after emptying the cache: \<open>getOpenAIClient()\<close>
  without a provider id, so the one of \<open>openai\<close>.
\<close>

definition default_client :: "('sv, 'ng) settings \<Rightarrow> openai_client" where
  "default_client s =
     (let version = or_default (embeddingsModelVersion s) unlabelledEmbeddingModel in
      new_OpenAIClient (openaiAPIKey s)
        (Some \<lparr>given_embeddings_model =
                 Given (if includes_char version CHR '':'' then mv_modelName (parseModelValue version)
                        else version),
               given_quantization_decimals = Absent,
               given_baseURL =
                 (if openaiBaseUrl s = [] then Undefined else Given (openaiBaseUrl s))\<rparr>))"

text \<open>
  A sample plugin for running the model: one stored vector, one note group, embeddings
  enabled. In the sample host every save succeeds, the note group holds two files, and
  the embedding run reports two completions, stores one vector and then throws. Two
  variants: a host whose disk is full, so that every save is rejected, and a host that
  cannot save more than one vector and whose embedding run resolves.
\<close>

definition sample_settings :: "(string \<times> rat list, string) settings" where
  "sample_settings =
     \<lparr>openaiAPIKey = ''sk'', openaiBaseUrl = [], anthropicAPIKey = [], gcpAPIKey = [],
      vectors = [(''old.md'', [1 / 10])], noteGroups = [''Permanent notes''],
      embeddingsModelVersion = Some ''openai:text-embedding-3-small'',
      embeddingsModelProviderId = Some ''openai'', embeddingsEnabled = True,
      indexedNoteGroup = 0, customEmbeddingModels = [], customProviders = [],
      providerModels = []\<rparr>"

definition sample_plugin :: "(string \<times> rat list, string, nat) plugin" where
  "sample_plugin =
     \<lparr>settings = sample_settings, vectorStore = 0, openaiClient = None,
      anthropicClient = None, indexingStatus = IDLE_STATUS, lastIndexedCount = 1,
      clientCache = [], effects = []\<rparr>"

definition sample_host :: "(string \<times> rat list, string, nat) host" where
  "sample_host =
     \<lparr>saveData = (\<lambda>s. Resolved ()),
      new_VectorStore = (\<lambda>p. Suc (vectorStore p)),
      filesInGroupFolder =
        (\<lambda>g. case g of None \<Rightarrow> Inl (HostError ''no note group'')
                       | Some _ \<Rightarrow> Inr [''a.md'', ''b.md'']),
      generateAndStoreEmbeddings =
        (\<lambda>files client p.
           \<lparr>notified = [1, 2],
            vectors_after = vectors (settings p) @ [(''a.md'', [123 / 1000])],
            store_after = vectorStore p,
            ending = Rejected (RemoteError ''rate limit'')\<rparr>)\<rparr>"

definition full_disk_host :: "(string \<times> rat list, string, nat) host" where
  "full_disk_host = sample_host\<lparr>saveData := (\<lambda>s. Rejected (HostError ''disk full''))\<rparr>"

definition small_disk_host :: "(string \<times> rat list, string, nat) host" where
  "small_disk_host =
     sample_host
       \<lparr>saveData := (\<lambda>s. if length (vectors s) \<le> 1 then Resolved ()
                          else Rejected (HostError ''disk full'')),
        generateAndStoreEmbeddings :=
          (\<lambda>files client p.
             \<lparr>notified = [1, 2],
              vectors_after = vectors (settings p) @ [(''a.md'', [123 / 1000])],
              store_after = vectorStore p,
              ending = Resolved ()\<rparr>)\<rparr>"

section \<open>The concurrency manager\<close>

text \<open>
  Modelled from the spec: the ConcurrencyManager that \<open>generateAndStoreEmbeddings\<close>
  returns (its code is in src/semantic_search, which is not among the sources). The spec
  (section 4.2) keeps an admission window of \<open>maxConcurrency\<close> tasks: while fewer are in
  flight and unstarted tasks remain, the next one is admitted; when a task completes,
  with success or with failure, the completed counter is incremented, the notification
  callback is invoked with the counter, and a replacement is admitted. Scheduling is
  single-threaded and cooperative (section 5), so a run is the sequence of its
  completions, each naming the position of the finishing task among those in flight and
  its outcome.
\<close>

datatype outcome = Succeeded | Failed

record 'd manager =
  unstarted :: "'d list"
  in_flight :: "'d list"
  succeeded :: "'d list"
  failed :: "'d list"
  completed :: nat
  notifications :: "nat list"

text \<open>
  Modelled from the spec: admission. While fewer than \<open>maxConcurrency\<close> tasks are in
  flight and unstarted tasks remain, the next unstarted task is admitted.
\<close>

fun admit :: "nat \<Rightarrow> 'd list \<Rightarrow> 'd list \<Rightarrow> 'd list \<times> 'd list" where
  "admit maxConcurrency [] flying = ([], flying)"
| "admit maxConcurrency (t # ts) flying =
     (if length flying < maxConcurrency then admit maxConcurrency ts (flying @ [t])
      else (t # ts, flying))"

text \<open>
  Modelled from the spec: \<open>start(tasks, worker, maxConcurrency)\<close> launches scheduling:
  nothing has completed, and the window is filled.
\<close>

definition start :: "nat \<Rightarrow> 'd list \<Rightarrow> 'd manager" where
  "start maxConcurrency tasks =
     (let (waiting, flying) = admit maxConcurrency tasks []
      in \<lparr>unstarted = waiting, in_flight = flying, succeeded = [], failed = [],
          completed = 0, notifications = []\<rparr>)"

text \<open>
  Modelled from the spec: one completion. The task at position \<open>i\<close> among those in flight
  reaches its terminal state; the counter is incremented, the callback receives the new
  count, and a replacement is admitted. There is no completion of a task that is not in
  flight.
\<close>

definition complete :: "nat \<Rightarrow> nat \<Rightarrow> outcome \<Rightarrow> 'd manager \<Rightarrow> 'd manager option" where
  "complete maxConcurrency i result m =
     (if i < length (in_flight m) then
        let t = in_flight m ! i;
            others = take i (in_flight m) @ drop (Suc i) (in_flight m);
            numCompleted = completed m + 1;
            (waiting, flying) = admit maxConcurrency (unstarted m) others
        in Some (m\<lparr>unstarted := waiting, in_flight := flying,
                   succeeded := (if result = Succeeded then succeeded m @ [t] else succeeded m),
                   failed := (if result = Failed then failed m @ [t] else failed m),
                   completed := numCompleted,
                   notifications := notifications m @ [numCompleted]\<rparr>)
      else None)"

text \<open>Modelled from the spec: a run, as the sequence of its completions in time.\<close>

fun completions :: "nat \<Rightarrow> (nat \<times> outcome) list \<Rightarrow> 'd manager \<Rightarrow> 'd manager option" where
  "completions maxConcurrency [] m = Some m"
| "completions maxConcurrency ((i, result) # rest) m =
     (case complete maxConcurrency i result m of
        None \<Rightarrow> None
      | Some m' \<Rightarrow> completions maxConcurrency rest m')"

text \<open>
  Modelled from the spec: what \<open>done()\<close> waits for, every submitted task in a terminal
  state.
\<close>

definition drained :: "'d manager \<Rightarrow> bool" where
  "drained m = (unstarted m = [] \<and> in_flight m = [])"

section \<open>Properties of the model-value helpers\<close>

lemma indexOf_from_absent: "c \<notin> set s \<Longrightarrow> indexOf_from s c i = - 1"
  by (induction s arbitrary: i) auto

lemma indexOf_from_first:
  "c \<notin> set p \<Longrightarrow> indexOf_from (p @ c # m) c i = int (i + length p)"
  by (induction p arbitrary: i) auto

lemma includes_iff: "includes_char s c \<longleftrightarrow> c \<in> set s"
  by (simp add: includes_char_def)

lemma includes_formatModelValue: "includes_char (formatModelValue p m) CHR '':''"
  by (simp add: includes_iff formatModelValue_def)

lemma substring_prefix: "substring (p @ c # m) 0 (int (length p)) = p"
  by (simp add: substring_def clamp_index_def Let_def)

lemma substring_from_suffix: "substring_from (p @ c # m) (int (length p) + 1) = m"
  by (simp add: substring_from_def substring_def clamp_index_def Let_def nat_add_distrib)

text \<open>
  C8. A model value built by \<open>formatModelValue\<close> from a provider id without a colon is
  parsed back into exactly that provider id and model name; a value with no colon at all
  is read as a model of the provider \<open>openai\<close>, the whole value being the model name.
\<close>

theorem parseModelValue_formatModelValue:
  "(CHR '':'' \<notin> set p \<longrightarrow>
      parseModelValue (formatModelValue p m) = \<lparr>mv_providerId = p, mv_modelName = m\<rparr>) \<and>
   (CHR '':'' \<notin> set v \<longrightarrow>
      parseModelValue v = \<lparr>mv_providerId = ''openai'', mv_modelName = v\<rparr>)"
proof (intro conjI impI)
  assume p: "CHR '':'' \<notin> set p"
  have idx: "indexOf (formatModelValue p m) CHR '':'' = int (length p)"
    using indexOf_from_first [OF p, of m 0] by (simp add: indexOf_def formatModelValue_def)
  have pre: "substring (formatModelValue p m) 0 (int (length p)) = p"
    using substring_prefix [of p "CHR '':''" m] by (simp add: formatModelValue_def)
  have suf: "substring_from (formatModelValue p m) (int (length p) + 1) = m"
    using substring_from_suffix [of p "CHR '':''" m] by (simp add: formatModelValue_def)
  show "parseModelValue (formatModelValue p m) = \<lparr>mv_providerId = p, mv_modelName = m\<rparr>"
    unfolding parseModelValue_def Let_def idx using pre suf by simp
next
  assume v: "CHR '':'' \<notin> set v"
  then have "indexOf v CHR '':'' = - 1"
    by (simp add: indexOf_def indexOf_from_absent)
  then show "parseModelValue v = \<lparr>mv_providerId = ''openai'', mv_modelName = v\<rparr>"
    by (simp add: parseModelValue_def)
qed

theorem parseModelValue_formatModelValue_witness:
  "CHR '':'' \<notin> set ''gcp'' \<and>
   parseModelValue (formatModelValue ''gcp'' ''text:embed'') =
     \<lparr>mv_providerId = ''gcp'', mv_modelName = ''text:embed''\<rparr> \<and>
   CHR '':'' \<notin> set ''text-embedding-3-small'' \<and>
   parseModelValue ''text-embedding-3-small'' =
     \<lparr>mv_providerId = ''openai'', mv_modelName = ''text-embedding-3-small''\<rparr>"
  using parseModelValue_formatModelValue [of "''gcp''" "''text:embed''" "''text-embedding-3-small''"]
  by simp

text \<open>
  C9. Whatever the old value, the list of models and the current provider id,
  \<open>migrateModelValue\<close> answers a value that contains the separator \<open>:\<close>, and migrating
  that answer again with the same arguments gives it back unchanged.
\<close>

theorem migrateModelValue_format_idempotent:
  "includes_char (migrateModelValue v ms cur) CHR '':'' \<and>
   migrateModelValue (migrateModelValue v ms cur) ms cur = migrateModelValue v ms cur"
proof -
  have inc: "includes_char (migrateModelValue v ms cur) CHR '':''"
    by (simp add: migrateModelValue_def Let_def includes_formatModelValue
          split: list.split option.split)
  moreover have "migrateModelValue w ms cur = w" if "includes_char w CHR '':''" for w
    using that by (simp add: migrateModelValue_def)
  ultimately show ?thesis by blast
qed

section \<open>Properties of the embedding client and of the indexing task\<close>














text \<open>
  C3. A call whose text is missing or empty is rejected with the error of the first check,
  and the list of remote requests it issued is empty; the rejection is the value returned
  to the caller.
\<close>

theorem generateEmbeddings_no_text:
  "given_text = None \<or> given_text = Some [] \<Longrightarrow>
   generateEmbeddings rnd create given_text modelName given_client = ([], Inl NoTextProvided)"
  by (auto simp: generateEmbeddings_def)

theorem generateEmbeddings_no_text_witness:
  "generateEmbeddings round_decimals sample_remote None OPENAI_EMBEDDING_3_SMALL
     (Some (new_OpenAIClient ''k'' None)) = ([], Inl NoTextProvided) \<and>
   generateEmbeddings round_decimals sample_remote (Some []) OPENAI_EMBEDDING_3_SMALL
     (Some (new_OpenAIClient ''k'' None)) = ([], Inl NoTextProvided)"
  using generateEmbeddings_no_text [of None round_decimals sample_remote OPENAI_EMBEDDING_3_SMALL
      "Some (new_OpenAIClient ''k'' None)"]
    generateEmbeddings_no_text [of "Some []" round_decimals sample_remote OPENAI_EMBEDDING_3_SMALL
      "Some (new_OpenAIClient ''k'' None)"]
  by simp

text \<open>
  C6. A call that names one of the two built-in OpenAI embedding models and is given no
  client is rejected at once: it issues no remote request, and nothing is tried again.
\<close>

theorem generateEmbeddings_no_client:
  "modelName = OPENAI_EMBEDDING_3_SMALL \<or> modelName = OPENAI_EMBEDDING_3_LARGE \<Longrightarrow>
   generateEmbeddings rnd create given_text modelName None =
     ([], Inl (if given_text = None \<or> given_text = Some [] then NoTextProvided
               else OpenAIClientNotInitialized))"
  by (auto simp: generateEmbeddings_def split: option.splits)

theorem generateEmbeddings_no_client_witness:
  "generateEmbeddings round_decimals sample_remote (Some ''hello'') ''text-embedding-3-large'' None =
     ([], Inl OpenAIClientNotInitialized)"
  using generateEmbeddings_no_client
    [of "''text-embedding-3-large''" round_decimals sample_remote "Some ''hello''"]
  by (simp add: OPENAI_EMBEDDING_3_LARGE_def)

text \<open>
  C10. With a text that is not empty, every model name other than the two built-in ones is
  rejected as an unknown embedding model, and no remote request is issued, client or no
  client. This covers the custom models and the discovered provider models that
  \<open>availableEmbeddingModels\<close> lists as available.
\<close>

theorem generateEmbeddings_unknown_model:
  "(modelName \<noteq> OPENAI_EMBEDDING_3_SMALL \<and> modelName \<noteq> OPENAI_EMBEDDING_3_LARGE \<and> txt \<noteq> [] \<longrightarrow>
      generateEmbeddings rnd create (Some txt) modelName given_client =
        ([], Inl (UnknownEmbeddingModel modelName))) \<and>
   (c \<in> set customs \<and> name c \<noteq> [] \<and> name c \<noteq> OPENAI_EMBEDDING_3_SMALL \<and>
    name c \<noteq> OPENAI_EMBEDDING_3_LARGE \<and> txt \<noteq> [] \<longrightarrow>
      (\<exists>m \<in> set (availableEmbeddingModels openAIKey (Some customs) discovered).
          name m = name c \<and> available m) \<and>
      generateEmbeddings rnd create (Some txt) (name c) given_client =
        ([], Inl (UnknownEmbeddingModel (name c)))) \<and>
   ((pid, Some ms) \<in> set pms \<and> m \<in> set ms \<and> available m \<and>
    name m \<noteq> OPENAI_EMBEDDING_3_SMALL \<and> name m \<noteq> OPENAI_EMBEDDING_3_LARGE \<and> txt \<noteq> [] \<longrightarrow>
      m \<in> set (availableEmbeddingModels openAIKey customModels (Some pms)) \<and>
      generateEmbeddings rnd create (Some txt) (name m) given_client =
        ([], Inl (UnknownEmbeddingModel (name m))))"
proof -
  have reject: "generateEmbeddings rnd create (Some txt) n given_client =
      ([], Inl (UnknownEmbeddingModel n))"
    if "n \<noteq> OPENAI_EMBEDDING_3_SMALL" "n \<noteq> OPENAI_EMBEDDING_3_LARGE" "txt \<noteq> []" for n
    using that by (simp add: generateEmbeddings_def)
  have custom: "\<exists>m \<in> set (availableEmbeddingModels openAIKey (Some customs) discovered).
      name m = name c \<and> available m"
    if "c \<in> set customs" "name c \<noteq> []"
  proof -
    let ?m = "\<lparr>name = name c,
               displayName = (if displayName c = [] then name c else displayName c),
               provider = OPENAI_PROVIDER, available = True, providerId = Some ''openai''\<rparr>"
    have "?m \<in> set (availableEmbeddingModels openAIKey (Some customs) discovered)"
      using that by (auto simp: availableEmbeddingModels_def Let_def)
    moreover have "name ?m = name c \<and> available ?m" by simp
    ultimately show ?thesis by blast
  qed
  have found: "m \<in> set (availableEmbeddingModels openAIKey customModels (Some pms))"
    if "(pid, Some ms) \<in> set pms" "m \<in> set ms"
    using that by (force simp: availableEmbeddingModels_def Let_def)
  show ?thesis using reject custom found by blast
qed

theorem generateEmbeddings_unknown_model_witness:
  "generateEmbeddings round_decimals sample_remote (Some ''hello'') ''nomic-embed-text''
     (Some (new_OpenAIClient ''k'' None)) = ([], Inl (UnknownEmbeddingModel ''nomic-embed-text'')) \<and>
   (\<exists>m \<in> set (availableEmbeddingModels []
        (Some [\<lparr>name = ''nomic-embed-text'', displayName = []\<rparr>]) None).
      name m = ''nomic-embed-text'' \<and> available m) \<and>
   \<lparr>name = ''gemini-embedding-001'', displayName = ''Gemini'', provider = ''openai'',
     available = True, providerId = Some ''gcp''\<rparr>
     \<in> set (availableEmbeddingModels [] None
          (Some [(''gcp'', Some [\<lparr>name = ''gemini-embedding-001'', displayName = ''Gemini'',
                    provider = ''openai'', available = True, providerId = Some ''gcp''\<rparr>])])) \<and>
   generateEmbeddings round_decimals sample_remote (Some ''hello'') ''gemini-embedding-001''
     (Some (new_OpenAIClient ''k'' None)) = ([], Inl (UnknownEmbeddingModel ''gemini-embedding-001''))"
  using generateEmbeddings_unknown_model
    [of "''nomic-embed-text''" "''hello''" round_decimals sample_remote
        "Some (new_OpenAIClient ''k'' None)"
        "\<lparr>name = ''nomic-embed-text'', displayName = []\<rparr>"
        "[\<lparr>name = ''nomic-embed-text'', displayName = []\<rparr>]" "[]" None
        "''gcp''"
        "[\<lparr>name = ''gemini-embedding-001'', displayName = ''Gemini'',
                    provider = ''openai'', available = True, providerId = Some ''gcp''\<rparr>]"
        "[(''gcp'', Some [\<lparr>name = ''gemini-embedding-001'', displayName = ''Gemini'',
                    provider = ''openai'', available = True, providerId = Some ''gcp''\<rparr>])]"
        "\<lparr>name = ''gemini-embedding-001'', displayName = ''Gemini'',
                    provider = ''openai'', available = True, providerId = Some ''gcp''\<rparr>"
        None]
  by (simp add: OPENAI_EMBEDDING_3_SMALL_def OPENAI_EMBEDDING_3_LARGE_def)

section \<open>Properties of the plugin\<close>

lemma getOpenAIClient_effects:
  "getOpenAIClient pid this = (r, this') \<Longrightarrow> \<exists>w. effects this' = effects this @ w"
  by (auto simp: getOpenAIClient_def Let_def split: if_splits option.splits prod.splits)

lemma saveSettings_resolved:
  "saveData h (settings this) = Resolved () \<Longrightarrow>
   saveSettings h this =
     (Resolved (),
      this\<lparr>effects := effects this @
               [ConsoleLog ''saving...'', SaveData (settings this), ConsoleLog ''done''],
           clientCache := [(''openai'', default_client (settings this))],
           openaiClient := Some (default_client (settings this)),
           anthropicClient := Some (anthropicAPIKey (settings this))\<rparr>)"
  by (simp add: saveSettings_def getOpenAIClient_def log_effect_def or_default_def
        default_client_def Let_def)

lemma saveSettings_unsettled:
  "saveData h (settings this) \<noteq> Resolved () \<Longrightarrow>
   saveSettings h this =
     (saveData h (settings this),
      this\<lparr>effects := effects this @ [ConsoleLog ''saving...'', SaveData (settings this)]\<rparr>)"
  by (cases "saveData h (settings this)") (simp_all add: saveSettings_def log_effect_def Let_def)

lemma saveSettings_result: "fst (saveSettings h this) = saveData h (settings this)"
proof (cases "saveData h (settings this) = Resolved ()")
  case True
  then show ?thesis by (simp add: saveSettings_resolved)
next
  case False
  then show ?thesis by (simp add: saveSettings_unsettled)
qed

lemma saveSettings_frame:
  "settings (snd (saveSettings h this)) = settings this"
  "indexingStatus (snd (saveSettings h this)) = indexingStatus this"
  "lastIndexedCount (snd (saveSettings h this)) = lastIndexedCount this"
  by (cases "saveData h (settings this) = Resolved ()";
      simp add: saveSettings_resolved saveSettings_unsettled)+

lemma saveSettings_effects:
  "\<exists>w. effects (snd (saveSettings h this)) = effects this @ w"
  by (cases "saveData h (settings this) = Resolved ()")
     (simp_all add: saveSettings_resolved saveSettings_unsettled)

lemma foldl_notify_effects: "\<exists>w. effects (foldl notify this ns) = effects this @ w"
proof (induction ns arbitrary: this)
  case Nil
  show ?case by simp
next
  case (Cons n ns)
  from Cons.IH [of "notify this n"] obtain w where
    w: "effects (foldl notify (notify this n) ns) = effects (notify this n) @ w" ..
  have "effects (notify this n) = effects this @ [Trigger index_updated]"
    by (simp add: notify_def trigger_def log_effect_def)
  with w show ?case by simp
qed

lemma index_try_block_effects:
  "\<exists>w. effects (snd (index_try_block h this)) = effects this @ w"
proof (cases "filesInGroupFolder h
    (array_get (noteGroups (settings this)) (indexedNoteGroup (settings this)))")
  case (Inl e)
  then show ?thesis by (simp add: index_try_block_def Let_def)
next
  case (Inr fs)
  obtain c this1 where g: "getOpenAIClient (embeddingsModelProviderId (settings this)) this = (c, this1)"
    by (cases "getOpenAIClient (embeddingsModelProviderId (settings this)) this")
  from getOpenAIClient_effects [OF g] obtain w1 where w1: "effects this1 = effects this @ w1" ..
  show ?thesis
  proof (cases c)
    case (Inl e)
    with Inr g w1 show ?thesis by (simp add: index_try_block_def Let_def)
  next
    case client: (Inr client)
    let ?this2 = "log_effect (SubmitEmbeddings fs client) this1"
    obtain w2 where w2: "effects (foldl notify ?this2
        (notified (generateAndStoreEmbeddings h fs client this1))) = effects ?this2 @ w2"
      using foldl_notify_effects by blast
    with Inr g client w1 show ?thesis
      by (simp add: index_try_block_def Let_def log_effect_def)
  qed
qed

text \<open>
  The state in which \<open>indexVectorStores\<close> ends once its \<open>try\<close> block has settled: the
  error, if any, on the console, the status idle, the event triggered, the settings
  saved, and the notice shown when the save has resolved.
\<close>

lemma indexVectorStores_settled:
  assumes guard: "embeddingsEnabled (settings this) \<and> indexingStatus this \<noteq> INDEXING_STATUS"
    and save: "saveSettings h (trigger index_updated
        (this\<lparr>indexingStatus := INDEXING_STATUS, lastIndexedCount := 0\<rparr>)) = (Resolved (), started)"
    and block: "index_try_block h started = (attempt, this3)"
    and settled: "attempt \<noteq> Pending"
    and idle: "this5 = trigger index_updated
        ((case attempt of Rejected e \<Rightarrow> log_effect (ConsoleError e) this3 | _ \<Rightarrow> this3)
           \<lparr>indexingStatus := IDLE_STATUS\<rparr>)"
  shows "indexVectorStores h this =
      (case saveSettings h this5 of
         (Resolved _, this6) \<Rightarrow> (Resolved (), log_effect (Notice (lastIndexedCount this6)) this6)
       | (unsettled, this6) \<Rightarrow> (unsettled, this6))"
  using guard settled
  by (cases attempt) (simp_all add: indexVectorStores_def Let_def save block idle)

lemma indexVectorStores_effects:
  "\<exists>w. effects (snd (indexVectorStores h this)) = effects this @ w"
proof (cases "\<not> embeddingsEnabled (settings this) \<or> indexingStatus this = INDEXING_STATUS")
  case True
  then show ?thesis by (auto simp: indexVectorStores_def)
next
  case False
  then have guard: "embeddingsEnabled (settings this) \<and> indexingStatus this \<noteq> INDEXING_STATUS"
    by simp
  let ?this1 = "trigger index_updated (this\<lparr>indexingStatus := INDEXING_STATUS, lastIndexedCount := 0\<rparr>)"
  have e1: "effects ?this1 = effects this @ [Trigger index_updated]"
    by (simp add: trigger_def log_effect_def)
  obtain r started where s1: "saveSettings h ?this1 = (r, started)"
    by (cases "saveSettings h ?this1")
  from saveSettings_effects [of h ?this1] s1 e1 obtain w2 where
    w2: "effects started = effects this @ w2" by auto
  show ?thesis
  proof (cases "r = Resolved ()")
    case False
    with s1 guard have "snd (indexVectorStores h this) = started"
      by (cases r) (simp_all add: indexVectorStores_def Let_def)
    with w2 show ?thesis by simp
  next
    case True
    obtain attempt this3 where t: "index_try_block h started = (attempt, this3)"
      by (cases "index_try_block h started")
    from index_try_block_effects [of h started] t w2 obtain w3 where
      w3: "effects this3 = effects this @ w3" by auto
    show ?thesis
    proof (cases "attempt = Pending")
      case pending: True
      with s1 True t guard have "snd (indexVectorStores h this) = this3"
        by (simp add: indexVectorStores_def Let_def)
      with w3 show ?thesis by simp
    next
      case settled: False
      let ?this5 = "trigger index_updated
        ((case attempt of Rejected e \<Rightarrow> log_effect (ConsoleError e) this3 | _ \<Rightarrow> this3)
           \<lparr>indexingStatus := IDLE_STATUS\<rparr>)"
      have "\<exists>w. effects ?this5 = effects this3 @ w"
        by (cases attempt) (simp_all add: trigger_def log_effect_def)
      with w3 obtain w5 where w5: "effects ?this5 = effects this @ w5" by auto
      obtain r6 this6 where s6: "saveSettings h ?this5 = (r6, this6)"
        by (cases "saveSettings h ?this5")
      from saveSettings_effects [of h ?this5] s6 w5 obtain w6 where
        w6: "effects this6 = effects this @ w6" by auto
      from s1 True have s1': "saveSettings h ?this1 = (Resolved (), started)" by simp
      have "indexVectorStores h this =
          (case saveSettings h ?this5 of
             (Resolved _, this6) \<Rightarrow> (Resolved (), log_effect (Notice (lastIndexedCount this6)) this6)
           | (unsettled, this6) \<Rightarrow> (unsettled, this6))"
        by (rule indexVectorStores_settled [OF guard s1' t settled refl])
      with s6 w6 show ?thesis
        by (cases r6) (simp_all add: log_effect_def)
    qed
  qed
qed

text \<open>
  C2. When the indexing status is already \<open>indexing\<close>, \<open>indexVectorStores\<close> returns at
  once and the plugin is left as it was: the vectors, the status, the settings and the
  list of effects are the same, so nothing was saved, no embedding work was submitted and
  nothing is kept for later.
\<close>

theorem indexVectorStores_while_indexing:
  "indexingStatus this = INDEXING_STATUS \<Longrightarrow> indexVectorStores h this = (Resolved (), this)"
  by (simp add: indexVectorStores_def)

theorem indexVectorStores_while_indexing_witness:
  "indexingStatus (sample_plugin\<lparr>indexingStatus := INDEXING_STATUS\<rparr>) = INDEXING_STATUS \<and>
   vectors (settings (sample_plugin\<lparr>indexingStatus := INDEXING_STATUS\<rparr>)) = [(''old.md'', [1 / 10])] \<and>
   indexVectorStores sample_host (sample_plugin\<lparr>indexingStatus := INDEXING_STATUS\<rparr>) =
     (Resolved (), sample_plugin\<lparr>indexingStatus := INDEXING_STATUS\<rparr>)"
  using indexVectorStores_while_indexing
    [of "sample_plugin\<lparr>indexingStatus := INDEXING_STATUS\<rparr>" sample_host]
  by (simp add: sample_plugin_def sample_settings_def)

text \<open>
  C4, as the code has it. A call that passes the guard sets the status to \<open>indexing\<close> and
  saves the settings. When that save resolves and the \<open>try\<close> block settles, whatever the
  collaborators of the block did (listing the files, resolving the client, the embedding
  run), the call ends with the status \<open>idle\<close>; an error thrown inside the block is
  written to the console and does not reach the caller. The call's own promise ends as
  the save of the \<open>finally\<close> block does, so the only error it can carry is a rejection of
  \<open>saveData\<close>.
\<close>

theorem indexVectorStores_idle_after_run:
  "embeddingsEnabled (settings this) \<and> indexingStatus this \<noteq> INDEXING_STATUS \<and>
   saveData h (settings this) = Resolved () \<Longrightarrow>
   \<exists>started.
     saveSettings h (trigger index_updated
        (this\<lparr>indexingStatus := INDEXING_STATUS, lastIndexedCount := 0\<rparr>)) =
       (Resolved (), started) \<and>
     indexingStatus started = INDEXING_STATUS \<and>
     (fst (index_try_block h started) \<noteq> Pending \<longrightarrow>
        indexingStatus (snd (indexVectorStores h this)) = IDLE_STATUS \<and>
        fst (indexVectorStores h this) = saveData h (settings (snd (indexVectorStores h this))) \<and>
        (\<forall>e. fst (index_try_block h started) = Rejected e \<longrightarrow>
           ConsoleError e \<in> set (effects (snd (indexVectorStores h this)))))"
proof -
  assume a: "embeddingsEnabled (settings this) \<and> indexingStatus this \<noteq> INDEXING_STATUS \<and>
    saveData h (settings this) = Resolved ()"
  then have guard: "embeddingsEnabled (settings this) \<and> indexingStatus this \<noteq> INDEXING_STATUS"
    by simp
  let ?this1 = "trigger index_updated (this\<lparr>indexingStatus := INDEXING_STATUS, lastIndexedCount := 0\<rparr>)"
  from a have "saveData h (settings ?this1) = Resolved ()"
    by (simp add: trigger_def log_effect_def)
  from saveSettings_resolved [OF this] obtain started where
    s1: "saveSettings h ?this1 = (Resolved (), started)" and
    st: "indexingStatus started = INDEXING_STATUS"
    by (simp add: trigger_def log_effect_def)
  obtain attempt this3 where t: "index_try_block h started = (attempt, this3)"
    by (cases "index_try_block h started")
  let ?this4 = "case attempt of Rejected e \<Rightarrow> log_effect (ConsoleError e) this3 | _ \<Rightarrow> this3"
  let ?this5 = "trigger index_updated (?this4\<lparr>indexingStatus := IDLE_STATUS\<rparr>)"
  have after: "indexingStatus (snd (indexVectorStores h this)) = IDLE_STATUS \<and>
      fst (indexVectorStores h this) = saveData h (settings (snd (indexVectorStores h this))) \<and>
      (\<forall>e. attempt = Rejected e \<longrightarrow>
         ConsoleError e \<in> set (effects (snd (indexVectorStores h this))))"
    if settled: "attempt \<noteq> Pending"
  proof -
    obtain r6 this6 where s6: "saveSettings h ?this5 = (r6, this6)"
      by (cases "saveSettings h ?this5")
    from saveSettings_frame [of h ?this5] s6 have
      f6: "settings this6 = settings ?this5" "indexingStatus this6 = IDLE_STATUS"
      by (simp_all add: trigger_def log_effect_def)
    from saveSettings_result [of h ?this5] s6 have r6: "r6 = saveData h (settings ?this5)"
      by simp
    from saveSettings_effects [of h ?this5] s6 obtain w where
      w: "effects this6 = effects ?this5 @ w" by auto
    have "indexVectorStores h this =
        (case saveSettings h ?this5 of
           (Resolved _, this6) \<Rightarrow> (Resolved (), log_effect (Notice (lastIndexedCount this6)) this6)
         | (unsettled, this6) \<Rightarrow> (unsettled, this6))"
      by (rule indexVectorStores_settled [OF guard s1 t settled refl])
    then have fin: "fst (indexVectorStores h this) = r6"
      "settings (snd (indexVectorStores h this)) = settings this6"
      "indexingStatus (snd (indexVectorStores h this)) = indexingStatus this6"
      "\<exists>w'. effects (snd (indexVectorStores h this)) = effects this6 @ w'"
      unfolding s6 by (cases r6; simp add: log_effect_def)+
    from fin(4) w obtain w'' where
      w'': "effects (snd (indexVectorStores h this)) = effects ?this5 @ w''" by auto
    have logged: "ConsoleError e \<in> set (effects ?this5)" if "attempt = Rejected e" for e
      using that by (simp add: trigger_def log_effect_def)
    have "ConsoleError e \<in> set (effects (snd (indexVectorStores h this)))"
      if "attempt = Rejected e" for e
      using logged [OF that] unfolding w'' by simp
    moreover have "indexingStatus (snd (indexVectorStores h this)) = IDLE_STATUS"
      using fin(3) f6(2) by simp
    moreover have "fst (indexVectorStores h this) =
        saveData h (settings (snd (indexVectorStores h this)))"
      using fin(1,2) r6 f6(1) by simp
    ultimately show ?thesis by blast
  qed
  from s1 st t after show ?thesis by auto
qed

theorem indexVectorStores_idle_after_run_witness:
  "embeddingsEnabled (settings sample_plugin) \<and>
   indexingStatus sample_plugin \<noteq> INDEXING_STATUS \<and>
   saveData sample_host (settings sample_plugin) = Resolved () \<and>
   fst (indexVectorStores sample_host sample_plugin) = Resolved () \<and>
   indexingStatus (snd (indexVectorStores sample_host sample_plugin)) = IDLE_STATUS \<and>
   ConsoleError (RemoteError ''rate limit'')
     \<in> set (effects (snd (indexVectorStores sample_host sample_plugin)))"
proof -
  have hyp: "embeddingsEnabled (settings sample_plugin) \<and>
      indexingStatus sample_plugin \<noteq> INDEXING_STATUS \<and>
      saveData sample_host (settings sample_plugin) = Resolved ()"
    by (simp add: sample_plugin_def sample_settings_def sample_host_def)
  have saves: "saveData sample_host s = Resolved ()" for s
    by (simp add: sample_host_def)
  from indexVectorStores_idle_after_run [OF hyp]
  obtain started where
    s: "saveSettings sample_host (trigger index_updated
        (sample_plugin\<lparr>indexingStatus := INDEXING_STATUS, lastIndexedCount := 0\<rparr>)) =
        (Resolved (), started)" and
    after: "fst (index_try_block sample_host started) \<noteq> Pending \<longrightarrow>
        indexingStatus (snd (indexVectorStores sample_host sample_plugin)) = IDLE_STATUS \<and>
        fst (indexVectorStores sample_host sample_plugin) =
          saveData sample_host (settings (snd (indexVectorStores sample_host sample_plugin))) \<and>
        (\<forall>e. fst (index_try_block sample_host started) = Rejected e \<longrightarrow>
           ConsoleError e \<in> set (effects (snd (indexVectorStores sample_host sample_plugin))))"
    by blast
  from s have started: "started = snd (saveSettings sample_host (trigger index_updated
        (sample_plugin\<lparr>indexingStatus := INDEXING_STATUS, lastIndexedCount := 0\<rparr>)))"
    by simp
  have block: "fst (index_try_block sample_host started) = Rejected (RemoteError ''rate limit'')"
    unfolding started
    by (simp add: saveSettings_resolved saves index_try_block_def getOpenAIClient_def
          or_default_def array_get_def sample_host_def sample_plugin_def sample_settings_def
          trigger_def log_effect_def Let_def)
  with after saves hyp show ?thesis by simp
qed

text \<open>
  The claim as it was stated fails where a save of the settings is rejected. With a full
  disk the first save, which stands before the \<open>try\<close>, is rejected: the error reaches the
  caller and the status stays \<open>indexing\<close>. With a disk that holds one vector only, the
  embedding run succeeds and the save of the \<open>finally\<close> block is rejected: the status is
  \<open>idle\<close>, and the error reaches the caller.
\<close>

theorem indexVectorStores_save_rejected_counterexample:
  "embeddingsEnabled (settings sample_plugin) \<and>
   indexingStatus sample_plugin \<noteq> INDEXING_STATUS \<and>
   fst (indexVectorStores full_disk_host sample_plugin) = Rejected (HostError ''disk full'') \<and>
   indexingStatus (snd (indexVectorStores full_disk_host sample_plugin)) = INDEXING_STATUS \<and>
   fst (index_try_block small_disk_host
          (snd (saveSettings small_disk_host (trigger index_updated
             (sample_plugin\<lparr>indexingStatus := INDEXING_STATUS, lastIndexedCount := 0\<rparr>))))) =
     Resolved () \<and>
   fst (indexVectorStores small_disk_host sample_plugin) = Rejected (HostError ''disk full'') \<and>
   indexingStatus (snd (indexVectorStores small_disk_host sample_plugin)) = IDLE_STATUS"
proof -
  let ?this1 = "trigger index_updated
      (sample_plugin\<lparr>indexingStatus := INDEXING_STATUS, lastIndexedCount := 0\<rparr>)"
  have guard: "embeddingsEnabled (settings sample_plugin) \<and>
      indexingStatus sample_plugin \<noteq> INDEXING_STATUS"
    by (simp add: sample_plugin_def sample_settings_def)
  have full: "saveData full_disk_host s = Rejected (HostError ''disk full'')" for s
    by (simp add: full_disk_host_def sample_host_def)
  have "saveSettings full_disk_host ?this1 =
      (Rejected (HostError ''disk full''),
       ?this1\<lparr>effects := effects ?this1 @ [ConsoleLog ''saving...'', SaveData (settings ?this1)]\<rparr>)"
    using saveSettings_unsettled [of full_disk_host ?this1] by (simp add: full)
  with guard have run_full: "indexVectorStores full_disk_host sample_plugin =
      (Rejected (HostError ''disk full''),
       ?this1\<lparr>effects := effects ?this1 @ [ConsoleLog ''saving...'', SaveData (settings ?this1)]\<rparr>)"
    by (simp add: indexVectorStores_def Let_def)
  have stuck: "indexingStatus (snd (indexVectorStores full_disk_host sample_plugin)) = INDEXING_STATUS"
    unfolding run_full by (simp add: trigger_def log_effect_def)
  have small: "saveData small_disk_host s =
      (if length (vectors s) \<le> 1 then Resolved () else Rejected (HostError ''disk full''))" for s
    by (simp add: small_disk_host_def sample_host_def)
  have first_save: "saveData small_disk_host (settings ?this1) = Resolved ()"
    by (simp add: small trigger_def log_effect_def sample_plugin_def sample_settings_def)
  let ?started = "?this1\<lparr>effects := effects ?this1 @
               [ConsoleLog ''saving...'', SaveData (settings ?this1), ConsoleLog ''done''],
           clientCache := [(''openai'', default_client (settings ?this1))],
           openaiClient := Some (default_client (settings ?this1)),
           anthropicClient := Some (anthropicAPIKey (settings ?this1))\<rparr>"
  have s1: "saveSettings small_disk_host ?this1 = (Resolved (), ?started)"
    by (rule saveSettings_resolved [OF first_save])
  obtain attempt this3 where block: "index_try_block small_disk_host ?started = (attempt, this3)"
    by (cases "index_try_block small_disk_host ?started")
  then have "attempt = fst (index_try_block small_disk_host ?started)"
    "this3 = snd (index_try_block small_disk_host ?started)"
    by simp_all
  then have ok: "attempt = Resolved ()" and stored: "length (vectors (settings this3)) = 2"
    by (simp_all add: index_try_block_def getOpenAIClient_def or_default_def array_get_def
          small_disk_host_def sample_host_def sample_plugin_def sample_settings_def
          trigger_def log_effect_def Let_def)
  let ?this5 = "trigger index_updated
      ((case attempt of Rejected e \<Rightarrow> log_effect (ConsoleError e) this3 | _ \<Rightarrow> this3)
         \<lparr>indexingStatus := IDLE_STATUS\<rparr>)"
  have last_save: "saveData small_disk_host (settings ?this5) = Rejected (HostError ''disk full'')"
    using stored ok by (simp add: small trigger_def log_effect_def)
  then have s6: "saveSettings small_disk_host ?this5 =
      (Rejected (HostError ''disk full''),
       ?this5\<lparr>effects := effects ?this5 @ [ConsoleLog ''saving...'', SaveData (settings ?this5)]\<rparr>)"
    using saveSettings_unsettled [of small_disk_host ?this5] by simp
  have settled: "attempt \<noteq> Pending"
    using ok by simp
  have "indexVectorStores small_disk_host sample_plugin =
      (case saveSettings small_disk_host ?this5 of
         (Resolved _, this6) \<Rightarrow> (Resolved (), log_effect (Notice (lastIndexedCount this6)) this6)
       | (unsettled, this6) \<Rightarrow> (unsettled, this6))"
    by (rule indexVectorStores_settled [OF guard s1 block settled refl])
  then have run_small: "indexVectorStores small_disk_host sample_plugin =
      (Rejected (HostError ''disk full''),
       ?this5\<lparr>effects := effects ?this5 @ [ConsoleLog ''saving...'', SaveData (settings ?this5)]\<rparr>)"
    unfolding s6 by simp
  have idle: "indexingStatus (snd (indexVectorStores small_disk_host sample_plugin)) = IDLE_STATUS"
    unfolding run_small by (simp add: trigger_def log_effect_def)
  have rejected: "fst (indexVectorStores small_disk_host sample_plugin) =
      Rejected (HostError ''disk full'')"
    unfolding run_small by simp
  have rejected_full: "fst (indexVectorStores full_disk_host sample_plugin) =
      Rejected (HostError ''disk full'')"
    unfolding run_full by simp
  have resolved: "fst (index_try_block small_disk_host
      (snd (saveSettings small_disk_host ?this1))) = Resolved ()"
    unfolding s1 using block ok by simp
  from guard rejected_full stuck resolved rejected idle show ?thesis
    by (intro conjI) simp_all
qed

text \<open>
  C5. When the user confirms a model value that is not empty and differs from the current
  one, the handler records the new model, empties the vector collection, replaces the
  store and resets the indexed count, and hands these settings, which hold no vector, to
  \<open>saveData\<close>. When the save resolves, it calls \<open>indexVectorStores\<close> from that state, and
  what the re-indexing does to the outside comes after the save. When the save does not
  resolve, the handler ends there and no re-indexing starts.
\<close>

theorem embeddingModel_onChange_clears_first:
  "confirmWasClicked \<and> v \<noteq> [] \<and> v \<noteq> getCurrentEmbeddingModelValue this \<Longrightarrow>
   \<exists>emptied.
     vectors (settings emptied) = [] \<and> lastIndexedCount emptied = 0 \<and>
     embeddingsModelVersion (settings emptied) = Some v \<and> effects emptied = effects this \<and>
     (saveData h (settings emptied) = Resolved () \<longrightarrow>
        (\<exists>cleared.
           vectors (settings cleared) = [] \<and> lastIndexedCount cleared = 0 \<and>
           embeddingsModelVersion (settings cleared) = Some v \<and>
           effects cleared =
             effects this @
               [ConsoleLog ''saving...'', SaveData (settings cleared), ConsoleLog ''done''] \<and>
           embeddingModel_onChange h v confirmWasClicked this = indexVectorStores h cleared \<and>
           (\<exists>later. effects (snd (indexVectorStores h cleared)) = effects cleared @ later))) \<and>
     (saveData h (settings emptied) \<noteq> Resolved () \<longrightarrow>
        embeddingModel_onChange h v confirmWasClicked this =
          (saveData h (settings emptied),
           emptied\<lparr>effects := effects this @
              [ConsoleLog ''saving...'', SaveData (settings emptied)]\<rparr>))"
proof -
  assume change: "confirmWasClicked \<and> v \<noteq> [] \<and> v \<noteq> getCurrentEmbeddingModelValue this"
  let ?this1 = "this\<lparr>settings := (settings this)
      \<lparr>embeddingsModelVersion := Some v,
       embeddingsModelProviderId := Some (mv_providerId (parseModelValue v))\<rparr>\<rparr>"
  let ?emptied = "clearVectorArray h ?this1"
  have handler: "embeddingModel_onChange h v confirmWasClicked this =
      (case saveSettings h ?emptied of
         (Resolved _, this3) \<Rightarrow> indexVectorStores h this3
       | (unsettled, this3) \<Rightarrow> (unsettled, this3))"
    using change by (simp add: embeddingModel_onChange_def Let_def)
  have empty: "vectors (settings ?emptied) = []" "lastIndexedCount ?emptied = 0"
      "embeddingsModelVersion (settings ?emptied) = Some v" "effects ?emptied = effects this"
    by (simp_all add: clearVectorArray_def Let_def)
  have resolved: "\<exists>cleared.
      vectors (settings cleared) = [] \<and> lastIndexedCount cleared = 0 \<and>
      embeddingsModelVersion (settings cleared) = Some v \<and>
      effects cleared =
        effects this @ [ConsoleLog ''saving...'', SaveData (settings cleared), ConsoleLog ''done''] \<and>
      embeddingModel_onChange h v confirmWasClicked this = indexVectorStores h cleared \<and>
      (\<exists>later. effects (snd (indexVectorStores h cleared)) = effects cleared @ later)"
    if ok: "saveData h (settings ?emptied) = Resolved ()"
  proof -
    let ?cleared = "?emptied\<lparr>effects := effects ?emptied @
               [ConsoleLog ''saving...'', SaveData (settings ?emptied), ConsoleLog ''done''],
           clientCache := [(''openai'', default_client (settings ?emptied))],
           openaiClient := Some (default_client (settings ?emptied)),
           anthropicClient := Some (anthropicAPIKey (settings ?emptied))\<rparr>"
    have save: "saveSettings h ?emptied = (Resolved (), ?cleared)"
      by (rule saveSettings_resolved [OF ok])
    have h1: "embeddingModel_onChange h v confirmWasClicked this = indexVectorStores h ?cleared"
      unfolding handler save by simp
    have h2: "vectors (settings ?cleared) = []" "lastIndexedCount ?cleared = 0"
        "embeddingsModelVersion (settings ?cleared) = Some v"
      using empty by simp_all
    have h3: "effects ?cleared =
        effects this @ [ConsoleLog ''saving...'', SaveData (settings ?cleared), ConsoleLog ''done'']"
      using empty by simp
    from h1 h2 h3 indexVectorStores_effects [of h ?cleared] show ?thesis by blast
  qed
  have unsettled: "embeddingModel_onChange h v confirmWasClicked this =
      (saveData h (settings ?emptied),
       ?emptied\<lparr>effects := effects this @ [ConsoleLog ''saving...'', SaveData (settings ?emptied)]\<rparr>)"
    if no: "saveData h (settings ?emptied) \<noteq> Resolved ()"
    unfolding handler saveSettings_unsettled [OF no] using no empty(4)
    by (cases "saveData h (settings ?emptied)") simp_all
  from empty resolved unsettled show ?thesis by blast
qed

theorem embeddingModel_onChange_clears_first_witness:
  "''openai:text-embedding-3-large'' \<noteq> getCurrentEmbeddingModelValue sample_plugin \<and>
   vectors (settings sample_plugin) = [(''old.md'', [1 / 10])] \<and>
   (\<exists>cleared.
      vectors (settings cleared) = [] \<and> lastIndexedCount cleared = 0 \<and>
      embeddingsModelVersion (settings cleared) = Some ''openai:text-embedding-3-large'' \<and>
      effects cleared =
        [ConsoleLog ''saving...'', SaveData (settings cleared), ConsoleLog ''done''] \<and>
      embeddingModel_onChange sample_host ''openai:text-embedding-3-large'' True sample_plugin =
        indexVectorStores sample_host cleared) \<and>
   (\<exists>emptied.
      vectors (settings emptied) = [] \<and> lastIndexedCount emptied = 0 \<and>
      embeddingModel_onChange full_disk_host ''openai:text-embedding-3-large'' True sample_plugin =
        (Rejected (HostError ''disk full''),
         emptied\<lparr>effects := [ConsoleLog ''saving...'', SaveData (settings emptied)]\<rparr>))"
proof -
  have current: "getCurrentEmbeddingModelValue sample_plugin = ''openai:text-embedding-3-small''"
    by (simp add: getCurrentEmbeddingModelValue_def sample_plugin_def sample_settings_def
          includes_char_def Let_def)
  have change: "True \<and> ''openai:text-embedding-3-large'' \<noteq> [] \<and>
      ''openai:text-embedding-3-large'' \<noteq> getCurrentEmbeddingModelValue sample_plugin"
    unfolding current by simp
  have before: "vectors (settings sample_plugin) = [(''old.md'', [1 / 10])]"
    "effects sample_plugin = []"
    by (simp_all add: sample_plugin_def sample_settings_def)
  have saves: "saveData sample_host s = Resolved ()" for s
    by (simp add: sample_host_def)
  have full: "saveData full_disk_host s = Rejected (HostError ''disk full'')" for s
    by (simp add: full_disk_host_def sample_host_def)
  from embeddingModel_onChange_clears_first [OF change, of sample_host] before saves
  have one: "\<exists>cleared.
      vectors (settings cleared) = [] \<and> lastIndexedCount cleared = 0 \<and>
      embeddingsModelVersion (settings cleared) = Some ''openai:text-embedding-3-large'' \<and>
      effects cleared =
        [ConsoleLog ''saving...'', SaveData (settings cleared), ConsoleLog ''done''] \<and>
      embeddingModel_onChange sample_host ''openai:text-embedding-3-large'' True sample_plugin =
        indexVectorStores sample_host cleared"
    by auto
  from embeddingModel_onChange_clears_first [OF change, of full_disk_host] before full
  have two: "\<exists>emptied.
      vectors (settings emptied) = [] \<and> lastIndexedCount emptied = 0 \<and>
      embeddingModel_onChange full_disk_host ''openai:text-embedding-3-large'' True sample_plugin =
        (Rejected (HostError ''disk full''),
         emptied\<lparr>effects := [ConsoleLog ''saving...'', SaveData (settings emptied)]\<rparr>)"
    by auto
  from change before one two show ?thesis by simp
qed

section \<open>Properties of the concurrency manager\<close>

lemma complete_counts:
  "complete k i result m = Some m' \<Longrightarrow>
   completed m' = Suc (completed m) \<and>
   notifications m' = notifications m @ [Suc (completed m)] \<and>
   length (succeeded m') + length (failed m') = Suc (length (succeeded m) + length (failed m))"
  by (cases result) (auto simp: complete_def Let_def split: if_splits prod.splits)

lemma completions_counts:
  "completions k evs m = Some m' \<Longrightarrow>
   notifications m = [1..<Suc (completed m)] \<Longrightarrow>
   length (succeeded m) + length (failed m) = completed m \<Longrightarrow>
   completed m' = completed m + length evs \<and>
   notifications m' = [1..<Suc (completed m + length evs)] \<and>
   length (succeeded m') + length (failed m') = completed m'"
proof (induction evs arbitrary: m)
  case Nil
  then show ?case by simp
next
  case (Cons ev evs)
  obtain i result where ev: "ev = (i, result)" by (cases ev)
  with Cons.prems(1) obtain m1 where
    step: "complete k i result m = Some m1" and rest: "completions k evs m1 = Some m'"
    by (auto split: option.splits)
  from complete_counts [OF step] Cons.prems(2,3) have
    c1: "completed m1 = Suc (completed m)" and
    n1: "notifications m1 = [1..<Suc (completed m1)]" and
    s1: "length (succeeded m1) + length (failed m1) = completed m1"
    by simp_all
  from Cons.IH [OF rest n1 s1] c1 show ?case by simp
qed

lemma start_counts:
  "completed (start k tasks) = 0" "notifications (start k tasks) = []"
  "succeeded (start k tasks) = []" "failed (start k tasks) = []"
  by (simp_all add: start_def split: prod.splits)

lemma foldl_notify_count:
  "lastIndexedCount (foldl notify this ns) = (if ns = [] then lastIndexedCount this else last ns)"
proof (induction ns arbitrary: this)
  case Nil
  show ?case by simp
next
  case (Cons n ns)
  have "lastIndexedCount (notify this n) = n"
    by (simp add: notify_def trigger_def log_effect_def)
  with Cons.IH [of "notify this n"] show ?case by simp
qed

text \<open>
  Completions are always possible until the manager has drained: with a window of at
  least one task, completing the first task in flight as often as there are tasks ends
  with nothing unstarted and nothing in flight.
\<close>

lemma admit_window:
  "admit k ts fl = (w, f) \<Longrightarrow>
   (w = [] \<or> k \<le> length f) \<and> length w + length f = length ts + length fl"
  by (induction ts arbitrary: fl) (auto split: if_splits)

lemma complete_first:
  assumes "in_flight m \<noteq> []"
  shows "\<exists>m'. complete k 0 r m = Some m' \<and>
    Suc (length (unstarted m') + length (in_flight m')) =
      length (unstarted m) + length (in_flight m) \<and>
    (unstarted m' = [] \<or> k \<le> length (in_flight m'))"
proof -
  from assms obtain t rest where fl: "in_flight m = t # rest"
    by (cases "in_flight m") auto
  obtain w f where a: "admit k (unstarted m) rest = (w, f)"
    by (cases "admit k (unstarted m) rest")
  from admit_window [OF a] show ?thesis
    by (cases r) (auto simp: complete_def Let_def fl a)
qed

lemma completions_drain:
  "0 < k \<Longrightarrow> unstarted m = [] \<or> k \<le> length (in_flight m) \<Longrightarrow>
   length (unstarted m) + length (in_flight m) = n \<Longrightarrow>
   \<exists>m'. completions k (replicate n (0, r)) m = Some m' \<and> drained m'"
proof (induction n arbitrary: m)
  case 0
  then show ?case by (simp add: drained_def)
next
  case (Suc n)
  from Suc.prems have "in_flight m \<noteq> []" by auto
  from complete_first [OF this, of k r] obtain m1 where
    step: "complete k 0 r m = Some m1" and
    size: "Suc (length (unstarted m1) + length (in_flight m1)) =
      length (unstarted m) + length (in_flight m)" and
    window: "unstarted m1 = [] \<or> k \<le> length (in_flight m1)"
    by blast
  from size Suc.prems(3) have "length (unstarted m1) + length (in_flight m1) = n" by simp
  from Suc.IH [OF Suc.prems(1) window this] step show ?case by simp
qed

lemma start_drains:
  "0 < maxConcurrency \<Longrightarrow>
   \<exists>m. completions maxConcurrency (replicate (length tasks) (0, r)) (start maxConcurrency tasks) = Some m \<and>
       drained m"
proof -
  assume k: "0 < maxConcurrency"
  obtain w f where a: "admit maxConcurrency tasks [] = (w, f)"
    by (cases "admit maxConcurrency tasks []")
  from admit_window [OF a] have
    "unstarted (start maxConcurrency tasks) = [] \<or>
       maxConcurrency \<le> length (in_flight (start maxConcurrency tasks))"
    "length (unstarted (start maxConcurrency tasks)) +
       length (in_flight (start maxConcurrency tasks)) = length tasks"
    by (simp_all add: start_def a)
  from completions_drain [OF k this] show ?thesis .
qed

text \<open>
  C7. In a run of the manager, every completion, successful or failed, adds one to the
  completed counter and calls the progress callback once with the new value. After any
  sequence of completions the counts delivered are 1, 2, ... up to the number of
  completions, which is the number of succeeded plus failed tasks; they never decrease.
  The callback of \<open>indexVectorStores\<close> stores each count, so the last one delivered is
  the indexed count the plugin shows.
\<close>

theorem progress_counts_cumulative:
  "completions maxConcurrency evs (start maxConcurrency tasks) = Some m \<Longrightarrow>
   notifications m = [1..<Suc (length evs)] \<and>
   sorted (notifications m) \<and>
   completed m = length evs \<and>
   length (succeeded m) + length (failed m) = length evs \<and>
   (\<forall>i result m'. complete maxConcurrency i result m = Some m' \<longrightarrow>
      notifications m' = notifications m @ [length (succeeded m') + length (failed m')]) \<and>
   lastIndexedCount (foldl notify this (notifications m)) =
     (if evs = [] then lastIndexedCount this else length evs)"
proof -
  assume run: "completions maxConcurrency evs (start maxConcurrency tasks) = Some m"
  from completions_counts [OF run] have
    c: "completed m = length evs" and
    n: "notifications m = [1..<Suc (length evs)]" and
    s: "length (succeeded m) + length (failed m) = completed m"
    by (simp_all add: start_counts)
  have next_one: "notifications m' = notifications m @ [length (succeeded m') + length (failed m')]"
    if "complete maxConcurrency i result m = Some m'" for i result m'
    using complete_counts [OF that] s by simp
  have shown: "lastIndexedCount (foldl notify this (notifications m)) =
      (if evs = [] then lastIndexedCount this else length evs)"
    unfolding foldl_notify_count n by (cases evs) simp_all
  have ordered: "sorted (notifications m)"
    unfolding n by (rule sorted_upt)
  from s c have total: "length (succeeded m) + length (failed m) = length evs"
    by simp
  from n ordered c total next_one shown show ?thesis
    by blast
qed

theorem progress_counts_cumulative_witness:
  "completions 2 [(1, Failed), (0, Succeeded), (0, Succeeded)] (start 2 [''a.md'', ''b.md'', ''c.md'']) =
     Some \<lparr>unstarted = [], in_flight = [], succeeded = [''a.md'', ''c.md''],
            failed = [''b.md''], completed = 3, notifications = [1, 2, 3]\<rparr> \<and>
   notifications \<lparr>unstarted = [], in_flight = [], succeeded = [''a.md'', ''c.md''],
            failed = [''b.md''], completed = 3, notifications = [1, 2, 3]\<rparr> =
     [1..<Suc (length [(1, Failed), (0, Succeeded), (0 :: nat, Succeeded)])] \<and>
   lastIndexedCount (foldl notify sample_plugin [1, 2, 3]) = 3"
proof -
  let ?evs = "[(1, Failed), (0, Succeeded), (0 :: nat, Succeeded)]"
  let ?m = "\<lparr>unstarted = [], in_flight = [], succeeded = [''a.md'', ''c.md''],
            failed = [''b.md''], completed = 3, notifications = [1, 2, 3]\<rparr>"
  have run: "completions 2 ?evs (start 2 [''a.md'', ''b.md'', ''c.md'']) = Some ?m"
    by (simp add: start_def complete_def Let_def)
  from progress_counts_cumulative [OF run, of sample_plugin]
  have "notifications ?m = [1..<Suc (length ?evs)]"
    and "lastIndexedCount (foldl notify sample_plugin (notifications ?m)) = length ?evs"
    by simp_all
  with run show ?thesis by simp
qed

end
